theory Spec2Isabelle
  imports Main "HOL-Library.Sublist"
begin

section \<open>The authentication blueprint of myblog (myblog/auth.py)\<close>

text \<open>
  The module holds three view functions (\<open>register\<close>, \<open>login\<close>, \<open>logout\<close>), the
  hook \<open>load_logged_in_user\<close> that runs before every request, and the decorator
  \<open>login_required\<close>. Each of them reads and writes the objects Flask hands to a view:
  the request, the session, the request-scoped object \<open>g\<close>, the flashed messages, and
  the database connection. The model threads these through every function as one
  record, and a view returns its response (or the exception it raises) together with
  the record as it left it.
\<close>

subsection \<open>Data\<close>

text \<open>
  A row of the table \<open>user\<close>. The source reads the columns \<open>id\<close>, \<open>username\<close> and
  \<open>password\<close> (\<open>user['id']\<close>, \<open>user['password']\<close>, and \<open>g.user['username']\<close> in the
  tests).
\<close>

record user_row =
  col_id :: int
  col_username :: string
  col_password :: string

text \<open>The five SQL statements the module sends, with their parameters.\<close>

datatype statement =
    SelectIdByUsername string
  | SelectByUsername string
  | SelectById int
  | InsertUser string string
  | Commit

text \<open>
  The store behind the connection: the table as the connection sees it, the table as
  it was last committed, and the statements executed so far, oldest first.
\<close>

record db =
  rows :: "user_row list"
  durable :: "user_row list"
  executed :: "statement list"

text \<open>
  An attribute of \<open>g\<close> is either not there at all (reading it raises) or holds a
  value, which may be \<open>None\<close>.
\<close>

datatype 'a attr = Undefined | Assigned 'a

record ctx =
  store :: db
  connected :: bool
  session :: "string \<rightharpoonup> int"
  g_user :: "user_row option attr"
  flashed :: "string list"

record request =
  req_method :: string
  form :: "string \<rightharpoonup> string"

datatype response = Redirect string | Rendered string

datatype error =
    BadRequestKeyError string
  | IntegrityError
  | AttributeError string
  | TypeError
  | BuildError string

type_synonym result = "(error + response) \<times> ctx"

text \<open>
  What the module takes from outside the repository: the two password functions of
  \<open>werkzeug.security\<close>, and the row id that the store gives to an inserted row.
  \<open>generate_password_hash\<close> salts at random; the function here is the one call of the
  request at hand.
\<close>

record env =
  generate_password_hash :: "string \<Rightarrow> string"
  check_password_hash :: "string \<Rightarrow> string \<Rightarrow> bool"
  new_rowid :: "user_row list \<Rightarrow> int"

subsection \<open>Collaborators\<close>

text \<open>
  Modelled from the spec: \<open>get_db\<close> of \<open>myblog/db.py\<close>, which is not among the
  sources. The spec has it return the request-scoped connection, acquired lazily; the
  store itself is untouched.
\<close>

definition get_db :: "ctx \<Rightarrow> ctx" where
  "get_db s = s\<lparr>connected := True\<rparr>"

definition record_stmt :: "statement \<Rightarrow> ctx \<Rightarrow> ctx" where
  "record_stmt q s = s\<lparr>store := (store s)\<lparr>executed := executed (store s) @ [q]\<rparr>\<rparr>"

text \<open>
  \<open>db.execute('SELECT id FROM user WHERE username = ?', (username,)).fetchone()\<close>:
  the id of the first matching row, or \<open>None\<close>.
\<close>

definition select_id_by_username :: "string \<Rightarrow> ctx \<Rightarrow> int option \<times> ctx" where
  "select_id_by_username name s =
     (map_option col_id (find (\<lambda>r. col_username r = name) (rows (store s))),
      record_stmt (SelectIdByUsername name) s)"

text \<open>\<open>db.execute('SELECT * FROM user WHERE username=?', (username,)).fetchone()\<close>\<close>

definition select_by_username :: "string \<Rightarrow> ctx \<Rightarrow> user_row option \<times> ctx" where
  "select_by_username name s =
     (find (\<lambda>r. col_username r = name) (rows (store s)),
      record_stmt (SelectByUsername name) s)"

text \<open>\<open>get_db().execute('SELECT * FROM user WHERE id=?', (user_id,)).fetchone()\<close>\<close>

definition select_by_id :: "int \<Rightarrow> ctx \<Rightarrow> user_row option \<times> ctx" where
  "select_by_id i s =
     (find (\<lambda>r. col_id r = i) (rows (store s)),
      record_stmt (SelectById i) s)"

text \<open>
  \<open>db.execute('INSERT INTO user (username, password) VALUES (?, ?)', ...)\<close>.
  Modelled from the spec: the schema is not among the sources; the spec has
  \<open>username\<close> unique in the table, so inserting a name that is there raises. The
  statement does not name the column \<open>id\<close>: the store chooses it.
\<close>

definition insert_user :: "env \<Rightarrow> string \<Rightarrow> string \<Rightarrow> ctx \<Rightarrow> error option \<times> ctx" where
  "insert_user e name pw s =
     (let s' = record_stmt (InsertUser name pw) s in
      if name \<in> set (map col_username (rows (store s))) then (Some IntegrityError, s')
      else
        (None, s'\<lparr>store := (store s')\<lparr>rows := rows (store s) @
           [\<lparr>col_id = new_rowid e (rows (store s)), col_username = name,
             col_password = pw\<rparr>]\<rparr>\<rparr>))"

text \<open>\<open>db.commit()\<close>\<close>

definition commit :: "ctx \<Rightarrow> ctx" where
  "commit s =
     (let s' = record_stmt Commit s in s'\<lparr>store := (store s')\<lparr>durable := rows (store s)\<rparr>\<rparr>)"

definition flash :: "string \<Rightarrow> ctx \<Rightarrow> ctx" where
  "flash message s = s\<lparr>flashed := flashed s @ [message]\<rparr>"

text \<open>
  The routes. \<open>Blueprint('auth', __name__, url_prefix='/auth')\<close> with the three
  \<open>@bp.route\<close> decorators gives the first three.
  Modelled from the spec: the endpoint \<open>index\<close> is registered outside this module;
  the spec and the tests have it at the application root.
\<close>

definition url_map :: "(string \<times> string) list" where
  "url_map =
     [(''auth.register'', ''/auth/register''),
      (''auth.login'', ''/auth/login''),
      (''auth.logout'', ''/auth/logout''),
      (''index'', ''/'')]"

definition url_for :: "string \<Rightarrow> error + string" where
  "url_for endpoint =
     (case map_of url_map endpoint of
        None \<Rightarrow> Inl (BuildError endpoint)
      | Some url \<Rightarrow> Inr url)"

text \<open>\<open>return redirect(url_for(endpoint))\<close>\<close>

definition redirect_url_for :: "string \<Rightarrow> ctx \<Rightarrow> result" where
  "redirect_url_for endpoint s =
     (case url_for endpoint of
        Inl err \<Rightarrow> (Inl err, s)
      | Inr url \<Rightarrow> (Inr (Redirect url), s))"

text \<open>\<open>return render_template(name)\<close>\<close>

definition render_template :: "string \<Rightarrow> ctx \<Rightarrow> result" where
  "render_template name s = (Inr (Rendered name), s)"

subsection \<open>The views\<close>

definition register :: "env \<Rightarrow> request \<Rightarrow> ctx \<Rightarrow> result" where
  "register e req s =
     (if req_method req = ''POST'' then
        (case form req ''username'' of
           None \<Rightarrow> (Inl (BadRequestKeyError ''username''), s)
         | Some username \<Rightarrow>
        (case form req ''password'' of
           None \<Rightarrow> (Inl (BadRequestKeyError ''password''), s)
         | Some password \<Rightarrow>
        (case
           (if username = [] then (Some ''Username is required.'', get_db s)
            else if password = [] then (Some ''Password is required.'', get_db s)
            else
              (case select_id_by_username username (get_db s) of
                 (Some i, s1) \<Rightarrow>
                   (Some (''User '' @ username @ '' is already registered.''), s1)
               | (None, s1) \<Rightarrow> (None, s1)))
         of
           (None, s1) \<Rightarrow>
             (case insert_user e username (generate_password_hash e password) s1 of
                (Some err, s2) \<Rightarrow> (Inl err, s2)
              | (None, s2) \<Rightarrow> redirect_url_for ''auth.login'' (commit s2))
         | (Some err, s1) \<Rightarrow> render_template ''auth/register.html'' (flash err s1))))
      else render_template ''auth/register.html'' s)"

definition login :: "env \<Rightarrow> request \<Rightarrow> ctx \<Rightarrow> result" where
  "login e req s =
     (if req_method req = ''POST'' then
        (case form req ''username'' of
           None \<Rightarrow> (Inl (BadRequestKeyError ''username''), s)
         | Some username \<Rightarrow>
        (case form req ''password'' of
           None \<Rightarrow> (Inl (BadRequestKeyError ''password''), s)
         | Some password \<Rightarrow>
        (case select_by_username username (get_db s) of (user, s1) \<Rightarrow>
        (case
           (case user of
              None \<Rightarrow> Some ''Incorrect username.''
            | Some row \<Rightarrow>
                if \<not> check_password_hash e (col_password row) password
                then Some ''Incorrect password.'' else None)
         of
           None \<Rightarrow>
             (case user of
                None \<Rightarrow> (Inl TypeError, s1\<lparr>session := Map.empty\<rparr>)
              | Some row \<Rightarrow>
                  redirect_url_for ''index''
                    (s1\<lparr>session := Map.empty(''user_id'' \<mapsto> col_id row)\<rparr>))
         | Some err \<Rightarrow> render_template ''auth/login.html'' (flash err s1)))))
      else render_template ''auth/login.html'' s)"

definition load_logged_in_user :: "ctx \<Rightarrow> ctx" where
  "load_logged_in_user s =
     (case session s ''user_id'' of
        None \<Rightarrow> s\<lparr>g_user := Assigned None\<rparr>
      | Some user_id \<Rightarrow>
          (case select_by_id user_id (get_db s) of
             (row, s1) \<Rightarrow> s1\<lparr>g_user := Assigned row\<rparr>))"

definition logout :: "ctx \<Rightarrow> result" where
  "logout s = redirect_url_for ''index'' (s\<lparr>session := Map.empty\<rparr>)"

definition login_required :: "('k \<Rightarrow> ctx \<Rightarrow> result) \<Rightarrow> 'k \<Rightarrow> ctx \<Rightarrow> result" where
  "login_required view kwargs s =
     (case g_user s of
        Undefined \<Rightarrow> (Inl (AttributeError ''user''), s)
      | Assigned None \<Rightarrow> redirect_url_for ''auth.login'' s
      | Assigned (Some u) \<Rightarrow> view kwargs s)"

subsection \<open>The test fixture\<close>

text \<open>
  The tests run against a store holding the user \<open>test\<close> with id 1 (\<open>test_login\<close>
  reads \<open>session['user_id'] == 1\<close> and \<open>g.user['username'] == 'test'\<close>), whose password
  is \<open>test\<close>, and post forms with the two fields \<open>username\<close> and \<open>password\<close>
  (\<open>AuthActions.login\<close>). The password functions of the fixture are a toy pair, there
  only so that the theorems below can be evaluated at concrete requests.
\<close>

definition toy_env :: env where
  "toy_env =
     \<lparr>generate_password_hash = (\<lambda>p. ''toy$'' @ p),
      check_password_hash = (\<lambda>h p. h = ''toy$'' @ p),
      new_rowid = (\<lambda>rs. int (length rs) + 1)\<rparr>"

definition test_user :: user_row where
  "test_user = \<lparr>col_id = 1, col_username = ''test'', col_password = ''toy$test''\<rparr>"

definition test_ctx :: ctx where
  "test_ctx =
     \<lparr>store = \<lparr>rows = [test_user], durable = [test_user], executed = []\<rparr>,
      connected = False, session = Map.empty, g_user = Undefined, flashed = []\<rparr>"

definition post :: "string \<Rightarrow> string \<Rightarrow> request" where
  "post username password =
     \<lparr>req_method = ''POST'',
      form = [''username'' \<mapsto> username, ''password'' \<mapsto> password]\<rparr>"

section \<open>Properties\<close>

lemma url_for_login: "url_for ''auth.login'' = Inr ''/auth/login''"
  by (simp add: url_for_def url_map_def)

lemma url_for_index: "url_for ''index'' = Inr ''/''"
  by (simp add: url_for_def url_map_def)

lemma redirect_login: "redirect_url_for ''auth.login'' s = (Inr (Redirect ''/auth/login''), s)"
  by (simp add: redirect_url_for_def url_for_login)

lemma redirect_index: "redirect_url_for ''index'' s = (Inr (Redirect ''/''), s)"
  by (simp add: redirect_url_for_def url_for_index)

lemma find_username_member:
  "(find (\<lambda>r. col_username r = u) rs = None) = (u \<notin> set (map col_username rs))"
  by (induction rs) auto

lemma find_id_member:
  "(find (\<lambda>r. col_id r = i) rs = None) = (i \<notin> set (map col_id rs))"
  by (induction rs) auto

lemma find_id_Some:
  "find (\<lambda>r. col_id r = i) rs = Some row \<Longrightarrow> row \<in> set rs \<and> col_id row = i"
  by (induction rs) (auto split: if_splits)

lemma already_registered_sublist:
  "sublist ''already registered'' (''User '' @ u @ '' is already registered.'')"
proof -
  have "''User '' @ u @ '' is already registered.''
      = (''User '' @ u @ '' is '') @ ''already registered'' @ ''.''" by simp
  then show ?thesis unfolding sublist_def by blast
qed

subsection \<open>Registration\<close>

text \<open>
  C1. A POST to \<open>register\<close> that carries both form fields is validated in the order
  username non-empty, password non-empty, username not yet in the store, and the first
  failure decides: an empty username gives \<open>Username is required.\<close> whatever the
  password and the store are, and no statement reaches the store; a non-empty username
  with an empty password gives \<open>Password is required.\<close>, again with no statement
  executed; and a taken username gives a message containing \<open>already registered\<close>
  after the one lookup. In all three cases the view returns the registration form, and
  neither an insert nor a commit is executed: the table, its committed state and the
  session are as before.
\<close>

theorem register_validation_order:
  assumes "req_method req = ''POST''"
    and "form req ''username'' = Some u" and "form req ''password'' = Some p"
  shows "(u = [] \<longrightarrow>
            fst (register e req s) = Inr (Rendered ''auth/register.html'')
          \<and> flashed (snd (register e req s)) = flashed s @ [''Username is required.'']
          \<and> store (snd (register e req s)) = store s
          \<and> session (snd (register e req s)) = session s)
       \<and> (u \<noteq> [] \<and> p = [] \<longrightarrow>
            fst (register e req s) = Inr (Rendered ''auth/register.html'')
          \<and> flashed (snd (register e req s)) = flashed s @ [''Password is required.'']
          \<and> store (snd (register e req s)) = store s
          \<and> session (snd (register e req s)) = session s)
       \<and> (u \<noteq> [] \<and> p \<noteq> [] \<and> u \<in> set (map col_username (rows (store s))) \<longrightarrow>
            fst (register e req s) = Inr (Rendered ''auth/register.html'')
          \<and> flashed (snd (register e req s))
              = flashed s @ [''User '' @ u @ '' is already registered.'']
          \<and> sublist ''already registered'' (last (flashed (snd (register e req s))))
          \<and> rows (store (snd (register e req s))) = rows (store s)
          \<and> durable (store (snd (register e req s))) = durable (store s)
          \<and> executed (store (snd (register e req s)))
              = executed (store s) @ [SelectIdByUsername u]
          \<and> session (snd (register e req s)) = session s)"
proof (intro conjI impI)
  assume "u = []"
  with assms show "fst (register e req s) = Inr (Rendered ''auth/register.html'')"
    "flashed (snd (register e req s)) = flashed s @ [''Username is required.'']"
    "store (snd (register e req s)) = store s"
    "session (snd (register e req s)) = session s"
    by (simp_all add: register_def render_template_def flash_def get_db_def)
next
  assume "u \<noteq> [] \<and> p = []"
  with assms show "fst (register e req s) = Inr (Rendered ''auth/register.html'')"
    "flashed (snd (register e req s)) = flashed s @ [''Password is required.'']"
    "store (snd (register e req s)) = store s"
    "session (snd (register e req s)) = session s"
    by (simp_all add: register_def render_template_def flash_def get_db_def)
next
  assume h: "u \<noteq> [] \<and> p \<noteq> [] \<and> u \<in> set (map col_username (rows (store s)))"
  then obtain row where f: "find (\<lambda>r. col_username r = u) (rows (store s)) = Some row"
    using find_username_member [of u "rows (store s)"] by auto
  have r: "register e req s =
      (Inr (Rendered ''auth/register.html''),
       flash (''User '' @ u @ '' is already registered.'')
         (record_stmt (SelectIdByUsername u) (get_db s)))"
    using assms h f
    by (simp add: register_def render_template_def select_id_by_username_def
        get_db_def record_stmt_def)
  show "fst (register e req s) = Inr (Rendered ''auth/register.html'')"
    "flashed (snd (register e req s)) = flashed s @ [''User '' @ u @ '' is already registered.'']"
    "rows (store (snd (register e req s))) = rows (store s)"
    "durable (store (snd (register e req s))) = durable (store s)"
    "executed (store (snd (register e req s))) = executed (store s) @ [SelectIdByUsername u]"
    "session (snd (register e req s)) = session s"
    by (simp_all add: r flash_def record_stmt_def get_db_def)
  show "sublist ''already registered'' (last (flashed (snd (register e req s))))"
    using already_registered_sublist [of u] by (simp add: r flash_def)
qed

theorem register_validation_order_witness:
  "fst (register toy_env (post [] []) test_ctx) = Inr (Rendered ''auth/register.html'')
   \<and> flashed (snd (register toy_env (post [] []) test_ctx)) = [''Username is required.'']
   \<and> rows (store (snd (register toy_env (post [] []) test_ctx))) = [test_user]
   \<and> flashed (snd (register toy_env (post ''a'' []) test_ctx)) = [''Password is required.'']
   \<and> executed (store (snd (register toy_env (post ''a'' []) test_ctx))) = []
   \<and> flashed (snd (register toy_env (post ''test'' ''test'') test_ctx))
       = [''User test is already registered.'']
   \<and> rows (store (snd (register toy_env (post ''test'' ''test'') test_ctx))) = [test_user]
   \<and> executed (store (snd (register toy_env (post ''test'' ''test'') test_ctx)))
       = [SelectIdByUsername ''test'']"
  using register_validation_order [of "post [] []" "[]" "[]" toy_env test_ctx]
    register_validation_order [of "post ''a'' []" "''a''" "[]" toy_env test_ctx]
    register_validation_order [of "post ''test'' ''test''" "''test''" "''test''" toy_env test_ctx]
  by (simp add: post_def test_ctx_def test_user_def)





subsection \<open>Login\<close>

text \<open>
  C2. A POST to \<open>login\<close> that carries both form fields: when the lookup by username
  finds no row, the view flashes exactly \<open>Incorrect username.\<close>; when it finds a row
  whose stored hash the submitted password does not verify against, it flashes exactly
  \<open>Incorrect password.\<close>. In both cases the login form is returned and the session is
  what it was: in particular no \<open>user_id\<close> is set.
\<close>

theorem login_errors:
  assumes "req_method req = ''POST''"
    and "form req ''username'' = Some u" and "form req ''password'' = Some p"
  shows "(find (\<lambda>r. col_username r = u) (rows (store s)) = None \<longrightarrow>
            fst (login e req s) = Inr (Rendered ''auth/login.html'')
          \<and> flashed (snd (login e req s)) = flashed s @ [''Incorrect username.'']
          \<and> session (snd (login e req s)) = session s)
       \<and> (find (\<lambda>r. col_username r = u) (rows (store s)) = Some row
            \<and> \<not> check_password_hash e (col_password row) p \<longrightarrow>
            fst (login e req s) = Inr (Rendered ''auth/login.html'')
          \<and> flashed (snd (login e req s)) = flashed s @ [''Incorrect password.'']
          \<and> session (snd (login e req s)) = session s)"
  using assms
  by (simp add: login_def select_by_username_def render_template_def flash_def
      get_db_def record_stmt_def)

theorem login_errors_witness:
  "fst (login toy_env (post ''a'' ''test'') test_ctx) = Inr (Rendered ''auth/login.html'')
   \<and> flashed (snd (login toy_env (post ''a'' ''test'') test_ctx)) = [''Incorrect username.'']
   \<and> session (snd (login toy_env (post ''a'' ''test'') test_ctx)) ''user_id'' = None
   \<and> fst (login toy_env (post ''test'' ''a'') test_ctx) = Inr (Rendered ''auth/login.html'')
   \<and> flashed (snd (login toy_env (post ''test'' ''a'') test_ctx)) = [''Incorrect password.'']
   \<and> session (snd (login toy_env (post ''test'' ''a'') test_ctx)) ''user_id'' = None"
  using login_errors [where req = "post ''a'' ''test''" and u = "''a''" and p = "''test''"
      and s = test_ctx and e = toy_env]
    login_errors [where req = "post ''test'' ''a''" and u = "''test''" and p = "''a''"
      and s = test_ctx and e = toy_env and row = test_user]
  by (simp add: post_def test_ctx_def test_user_def toy_env_def)

text \<open>
  C4. A POST to \<open>login\<close> whose username the lookup resolves to a row, and whose
  password verifies against that row's stored hash, is answered with a redirect to the
  application root, and the session afterwards holds the key \<open>user_id\<close>, bound to that
  row's id, and no other key, whatever it held before: it was cleared first and then
  written.
\<close>

theorem login_success:
  assumes "req_method req = ''POST''"
    and "form req ''username'' = Some u" and "form req ''password'' = Some p"
    and "find (\<lambda>r. col_username r = u) (rows (store s)) = Some row"
    and "check_password_hash e (col_password row) p"
  shows "fst (login e req s) = Inr (Redirect ''/'')
       \<and> session (snd (login e req s)) = Map.empty(''user_id'' \<mapsto> col_id row)
       \<and> dom (session (snd (login e req s))) = {''user_id''}
       \<and> flashed (snd (login e req s)) = flashed s
       \<and> rows (store (snd (login e req s))) = rows (store s)"
  using assms
  by (simp add: login_def select_by_username_def redirect_index get_db_def record_stmt_def)

theorem login_success_witness:
  "fst (login toy_env (post ''test'' ''test'') (test_ctx\<lparr>session := [''cart'' \<mapsto> 7]\<rparr>))
     = Inr (Redirect ''/'')
   \<and> session (snd (login toy_env (post ''test'' ''test'')
        (test_ctx\<lparr>session := [''cart'' \<mapsto> 7]\<rparr>))) = [''user_id'' \<mapsto> 1]
   \<and> session (snd (login toy_env (post ''test'' ''test'')
        (test_ctx\<lparr>session := [''cart'' \<mapsto> 7]\<rparr>))) ''cart'' = None"
  using login_success [where req = "post ''test'' ''test''" and u = "''test''"
      and p = "''test''" and s = "test_ctx\<lparr>session := [''cart'' \<mapsto> 7]\<rparr>"
      and row = test_user and e = toy_env]
  by (simp add: post_def test_ctx_def test_user_def toy_env_def)

subsection \<open>Missing form fields\<close>

text \<open>
  C9. A POST to \<open>register\<close> or to \<open>login\<close> whose form has no \<open>username\<close> key, or
  has that key and no \<open>password\<close> key, raises the missing-key error for the first
  absent key. It is the result of the view (the framework's request error), and the
  state is the one the view was called with: nothing is flashed, so neither
  \<open>Username is required.\<close> nor \<open>Password is required.\<close> is reported, no statement
  reaches the store, and the session is unchanged.
\<close>

theorem missing_form_key:
  assumes "req_method req = ''POST''"
  shows "(form req ''username'' = None \<longrightarrow>
            register e req s = (Inl (BadRequestKeyError ''username''), s)
          \<and> login e req s = (Inl (BadRequestKeyError ''username''), s))
       \<and> (form req ''username'' = Some u \<and> form req ''password'' = None \<longrightarrow>
            register e req s = (Inl (BadRequestKeyError ''password''), s)
          \<and> login e req s = (Inl (BadRequestKeyError ''password''), s))"
  using assms by (simp add: register_def login_def)

theorem missing_form_key_witness:
  "register toy_env \<lparr>req_method = ''POST'', form = [''password'' \<mapsto> ''a'']\<rparr> test_ctx
     = (Inl (BadRequestKeyError ''username''), test_ctx)
   \<and> login toy_env \<lparr>req_method = ''POST'', form = [''password'' \<mapsto> ''a'']\<rparr> test_ctx
     = (Inl (BadRequestKeyError ''username''), test_ctx)
   \<and> register toy_env \<lparr>req_method = ''POST'', form = [''username'' \<mapsto> []]\<rparr> test_ctx
     = (Inl (BadRequestKeyError ''password''), test_ctx)
   \<and> login toy_env \<lparr>req_method = ''POST'', form = [''username'' \<mapsto> []]\<rparr> test_ctx
     = (Inl (BadRequestKeyError ''password''), test_ctx)"
  using missing_form_key [where req = "\<lparr>req_method = ''POST'', form = [''password'' \<mapsto> ''a'']\<rparr>"
      and e = toy_env and s = test_ctx]
    missing_form_key [where req = "\<lparr>req_method = ''POST'', form = [''username'' \<mapsto> []]\<rparr>"
      and e = toy_env and s = test_ctx and u = "[]"]
  by simp

subsection \<open>The identity preload\<close>

text \<open>
  C6. \<open>load_logged_in_user\<close> sets \<open>g.user\<close> from the session: to \<open>None\<close> when the
  session has no \<open>user_id\<close>; to \<open>None\<close> as well, with nothing raised, when it has a
  \<open>user_id\<close> that no row of the table carries; and otherwise to the row with that id
  that the lookup returns.
\<close>

theorem load_logged_in_user_identity:
  "(session s ''user_id'' = None \<longrightarrow> g_user (load_logged_in_user s) = Assigned None)
   \<and> (session s ''user_id'' = Some i \<and> i \<notin> set (map col_id (rows (store s))) \<longrightarrow>
        g_user (load_logged_in_user s) = Assigned None)
   \<and> (session s ''user_id'' = Some i
        \<and> find (\<lambda>r. col_id r = i) (rows (store s)) = Some row \<longrightarrow>
        g_user (load_logged_in_user s) = Assigned (Some row)
        \<and> row \<in> set (rows (store s)) \<and> col_id row = i)"
proof (intro conjI impI)
  assume "session s ''user_id'' = None"
  then show "g_user (load_logged_in_user s) = Assigned None"
    by (simp add: load_logged_in_user_def)
next
  assume h: "session s ''user_id'' = Some i \<and> i \<notin> set (map col_id (rows (store s)))"
  from h have k: "session s ''user_id'' = Some i" by (rule conjunct1)
  from h have "i \<notin> set (map col_id (rows (store s)))" by (rule conjunct2)
  then have f: "find (\<lambda>r. col_id r = i) (rows (store s)) = None"
    by (simp add: find_id_member)
  show "g_user (load_logged_in_user s) = Assigned None"
    by (simp add: load_logged_in_user_def select_by_id_def get_db_def record_stmt_def k f)
next
  assume h: "session s ''user_id'' = Some i
    \<and> find (\<lambda>r. col_id r = i) (rows (store s)) = Some row"
  from h have k: "session s ''user_id'' = Some i" by (rule conjunct1)
  from h have f: "find (\<lambda>r. col_id r = i) (rows (store s)) = Some row" by (rule conjunct2)
  show "g_user (load_logged_in_user s) = Assigned (Some row)"
    by (simp add: load_logged_in_user_def select_by_id_def get_db_def record_stmt_def k f)
  from find_id_Some [OF f] show "row \<in> set (rows (store s))" by (rule conjunct1)
  from find_id_Some [OF f] show "col_id row = i" by (rule conjunct2)
qed

theorem load_logged_in_user_identity_witness:
  "g_user (load_logged_in_user test_ctx) = Assigned None
   \<and> g_user (load_logged_in_user (test_ctx\<lparr>session := [''user_id'' \<mapsto> 5]\<rparr>)) = Assigned None
   \<and> g_user (load_logged_in_user (test_ctx\<lparr>session := [''user_id'' \<mapsto> 1]\<rparr>))
       = Assigned (Some test_user)"
  using load_logged_in_user_identity [where s = test_ctx and i = 1 and row = test_user]
    load_logged_in_user_identity [where s = "test_ctx\<lparr>session := [''user_id'' \<mapsto> 5]\<rparr>"
      and i = 5 and row = test_user]
    load_logged_in_user_identity [where s = "test_ctx\<lparr>session := [''user_id'' \<mapsto> 1]\<rparr>"
      and i = 1 and row = test_user]
  by (simp add: test_ctx_def test_user_def)

text \<open>
  C10. After \<open>load_logged_in_user\<close>, \<open>g.user\<close> is assigned, whatever it was before.
  When it is not \<open>None\<close>, it is a whole row of the table, with its \<open>username\<close> and
  \<open>password\<close> columns, namely the one whose id the session holds. When the session has
  no \<open>user_id\<close>, no statement reaches the store and no connection is asked for.
\<close>

theorem load_logged_in_user_assigns:
  "g_user (load_logged_in_user s) \<noteq> Undefined
   \<and> (g_user (load_logged_in_user s) = Assigned (Some row) \<longrightarrow>
        row \<in> set (rows (store s)) \<and> session s ''user_id'' = Some (col_id row))
   \<and> (session s ''user_id'' = None \<longrightarrow>
        store (load_logged_in_user s) = store s
        \<and> connected (load_logged_in_user s) = connected s)"
proof (intro conjI impI)
  show "g_user (load_logged_in_user s) \<noteq> Undefined"
    by (simp add: load_logged_in_user_def select_by_id_def split: option.splits)
next
  assume a: "g_user (load_logged_in_user s) = Assigned (Some row)"
  have "session s ''user_id'' \<noteq> None"
  proof
    assume "session s ''user_id'' = None"
    then have "g_user (load_logged_in_user s) = Assigned None"
      by (simp add: load_logged_in_user_def)
    with a show False by simp
  qed
  then obtain i where i: "session s ''user_id'' = Some i" by blast
  have "g_user (load_logged_in_user s)
      = Assigned (find (\<lambda>r. col_id r = i) (rows (store s)))"
    by (simp add: load_logged_in_user_def select_by_id_def get_db_def record_stmt_def i)
  with a have f: "find (\<lambda>r. col_id r = i) (rows (store s)) = Some row" by simp
  from find_id_Some [OF f] show "row \<in> set (rows (store s))" by (rule conjunct1)
  from find_id_Some [OF f] have "col_id row = i" by (rule conjunct2)
  then show "session s ''user_id'' = Some (col_id row)" by (simp only: i)
next
  assume n: "session s ''user_id'' = None"
  show "store (load_logged_in_user s) = store s"
    by (simp add: load_logged_in_user_def n)
  show "connected (load_logged_in_user s) = connected s"
    by (simp add: load_logged_in_user_def n)
qed

theorem load_logged_in_user_assigns_witness:
  "g_user (load_logged_in_user (test_ctx\<lparr>session := [''user_id'' \<mapsto> 1]\<rparr>))
     = Assigned (Some test_user)
   \<and> col_password test_user = ''toy$test''
   \<and> test_user \<in> set (rows (store (test_ctx\<lparr>session := [''user_id'' \<mapsto> 1]\<rparr>)))
   \<and> executed (store (load_logged_in_user test_ctx)) = []
   \<and> connected (load_logged_in_user test_ctx) = False"
proof -
  have g: "g_user (load_logged_in_user (test_ctx\<lparr>session := [''user_id'' \<mapsto> 1]\<rparr>))
     = Assigned (Some test_user)"
    by (simp add: load_logged_in_user_def select_by_id_def get_db_def record_stmt_def
        test_ctx_def test_user_def)
  have n: "session test_ctx ''user_id'' = None" by (simp add: test_ctx_def)
  from load_logged_in_user_assigns
      [where s = "test_ctx\<lparr>session := [''user_id'' \<mapsto> 1]\<rparr>" and row = test_user] g
  have m: "test_user \<in> set (rows (store (test_ctx\<lparr>session := [''user_id'' \<mapsto> 1]\<rparr>)))"
    by blast
  from load_logged_in_user_assigns [where s = test_ctx and row = test_user] n
  have u: "store (load_logged_in_user test_ctx) = store test_ctx
      \<and> connected (load_logged_in_user test_ctx) = connected test_ctx" by blast
  have "executed (store test_ctx) = []" "connected test_ctx = False"
    "col_password test_user = ''toy$test''"
    by (simp_all add: test_ctx_def test_user_def)
  with g m u show ?thesis by simp
qed

subsection \<open>Logout and the access guard\<close>

text \<open>
  C7. \<open>logout\<close> answers every state, the one with an empty session included, with a
  redirect to the application root and leaves the session empty and everything else as
  it was; it raises nothing. Logging out of an empty session, or a second time, gives
  the same response and the same state as logging out once.
\<close>

theorem logout_clears_session:
  "logout s = (Inr (Redirect ''/''), s\<lparr>session := Map.empty\<rparr>)
   \<and> logout (snd (logout s)) = (Inr (Redirect ''/''), snd (logout s))
   \<and> logout (s\<lparr>session := Map.empty\<rparr>) = logout s
   \<and> logout (snd (login e req s)) = logout (snd (login e req s)\<lparr>session := Map.empty\<rparr>)"
  by (simp add: logout_def redirect_index)

text \<open>
  C5. A view wrapped by \<open>login_required\<close>: when \<open>g.user\<close> is \<open>None\<close> the result is a
  redirect to the login view and the state is the caller's, whatever the wrapped view
  is, so the view did not run; when \<open>g.user\<close> is a row, the result and the state are
  those of the wrapped view applied to the same arguments.
\<close>

theorem login_required_guard:
  "(g_user s = Assigned None \<longrightarrow>
      login_required view kwargs s = (Inr (Redirect ''/auth/login''), s))
   \<and> (g_user s = Assigned (Some u) \<longrightarrow> login_required view kwargs s = view kwargs s)"
  by (simp add: login_required_def redirect_login)

theorem login_required_guard_witness:
  "login_required (\<lambda>k s. (Inr (Rendered k), flash ''edited'' s)) ''blog/update.html''
        (test_ctx\<lparr>g_user := Assigned None\<rparr>)
      = (Inr (Redirect ''/auth/login''), test_ctx\<lparr>g_user := Assigned None\<rparr>)
   \<and> login_required (\<lambda>k s. (Inr (Rendered k), flash ''edited'' s)) ''blog/update.html''
        (test_ctx\<lparr>g_user := Assigned (Some test_user)\<rparr>)
      = (Inr (Rendered ''blog/update.html''),
         test_ctx\<lparr>g_user := Assigned (Some test_user), flashed := [''edited'']\<rparr>)"
  using login_required_guard [where s = "test_ctx\<lparr>g_user := Assigned None\<rparr>"
      and view = "\<lambda>k s. (Inr (Rendered k), flash ''edited'' s)"
      and kwargs = "''blog/update.html''" and u = test_user]
    login_required_guard [where s = "test_ctx\<lparr>g_user := Assigned (Some test_user)\<rparr>"
      and view = "\<lambda>k s. (Inr (Rendered k), flash ''edited'' s)"
      and kwargs = "''blog/update.html''" and u = test_user]
  by (simp add: flash_def test_ctx_def)

end
